theory Spec2Isabelle
  imports Main
begin

section \<open>VortexL2 port forward management (\<open>vortexl2/forward.py\<close>)\<close>

text \<open>
  A shallow embedding of \<open>ForwardManager\<close>. A Python \<open>str\<close> is a \<open>string\<close> whose
  characters are the code points 0 to 255; the character classes below are Python's
  \<open>str.isspace\<close>, \<open>str.isalnum\<close> and \<open>str.lower\<close> on exactly that range.
\<close>

subsection \<open>Python string primitives\<close>

definition py_isspace :: "char \<Rightarrow> bool" where
  "py_isspace c =
     (let n = (of_char c :: nat)
      in (9 \<le> n \<and> n \<le> 13) \<or> (28 \<le> n \<and> n \<le> 32) \<or> n = 133 \<or> n = 160)"

definition py_isalnum :: "char \<Rightarrow> bool" where
  "py_isalnum c =
     (let n = (of_char c :: nat)
      in (48 \<le> n \<and> n \<le> 57) \<or> (65 \<le> n \<and> n \<le> 90) \<or> (97 \<le> n \<and> n \<le> 122)
         \<or> n = 170 \<or> n = 178 \<or> n = 179 \<or> n = 181 \<or> n = 185 \<or> n = 186
         \<or> (188 \<le> n \<and> n \<le> 190) \<or> (192 \<le> n \<and> n \<le> 214)
         \<or> (216 \<le> n \<and> n \<le> 246) \<or> (248 \<le> n \<and> n \<le> 255))"

definition py_lower_char :: "char \<Rightarrow> char" where
  "py_lower_char c =
     (let n = (of_char c :: nat)
      in if (65 \<le> n \<and> n \<le> 90) \<or> (192 \<le> n \<and> n \<le> 214) \<or> (216 \<le> n \<and> n \<le> 222)
         then char_of (n + 32) else c)"

definition py_lower :: "string \<Rightarrow> string" where
  "py_lower s = map py_lower_char s"

text \<open>\<open>s.strip()\<close> and \<open>s.strip(chars)\<close>: drop the matching characters at both ends.\<close>

definition strip_where :: "(char \<Rightarrow> bool) \<Rightarrow> string \<Rightarrow> string" where
  "strip_where P s = rev (dropWhile P (rev (dropWhile P s)))"

definition py_strip :: "string \<Rightarrow> string" where
  "py_strip s = strip_where py_isspace s"

definition is_dash :: "char \<Rightarrow> bool" where
  "is_dash c = (c = CHR ''-'')"

text \<open>\<open>re.sub(r"-+", "-", s)\<close>: every maximal run of dashes becomes one dash.\<close>

function collapse_dashes :: "string \<Rightarrow> string" where
  "collapse_dashes [] = []"
| "collapse_dashes (c # cs) =
     (if is_dash c then CHR ''-'' # collapse_dashes (dropWhile is_dash cs)
      else c # collapse_dashes cs)"
  by pat_completeness auto
termination
  by (relation "measure length") (auto simp: less_Suc_eq_le length_dropWhile_le)

text \<open>
  \<open>str(n)\<close> of an integer, as the f-strings format a port: decimal digits, with a
  leading minus sign when negative.
\<close>

definition digit_char :: "int \<Rightarrow> char" where
  "digit_char d = char_of (48 + d)"

function str_digits :: "int \<Rightarrow> string" where
  "str_digits n =
     (if n < 10 then [digit_char n] else str_digits (n div 10) @ [digit_char (n mod 10)])"
  by pat_completeness auto
termination
  by (relation "measure nat") auto

declare str_digits.simps [simp del]

definition py_str_int :: "int \<Rightarrow> string" where
  "py_str_int i = (if i < 0 then CHR ''-'' # str_digits (- i) else str_digits i)"

text \<open>\<open>"sep".join(xs)\<close>.\<close>

fun join :: "string \<Rightarrow> string list \<Rightarrow> string" where
  "join sep [] = []"
| "join sep [x] = x"
| "join sep (x # y # ys) = x @ sep @ join sep (y # ys)"

subsection \<open>Unit names\<close>

text \<open>
  \<open>_sanitize_unit_part\<close>; the argument is \<open>None\<close> for Python's \<open>None\<close>, which
  \<open>(s or "")\<close> turns into the empty string.
\<close>

definition allowed_char :: "char \<Rightarrow> bool" where
  "allowed_char c = (py_isalnum c \<or> c = CHR ''-'' \<or> c = CHR ''_'')"

definition sanitize_unit_part :: "string option \<Rightarrow> string" where
  "sanitize_unit_part s0 =
     (let s = py_lower (py_strip (case s0 of None \<Rightarrow> [] | Some x \<Rightarrow> x));
          s = map (\<lambda>c. if allowed_char c then c else CHR ''-'') s;
          s = strip_where is_dash (collapse_dashes s)
      in if s = [] then ''tunnel'' else s)"

subsection \<open>\<open>int(s)\<close> on a string\<close>

text \<open>
  CPython's base-10 \<open>int(str)\<close>: surrounding whitespace is dropped, one optional sign,
  then decimal digits with single underscores allowed between digits. A digit count
  above the interpreter's limit (checked only beyond 640 digits, 0 switching it off)
  raises \<open>ValueError\<close> like any malformed literal; \<open>None\<close> is that \<open>ValueError\<close>.
\<close>

definition is_digit :: "char \<Rightarrow> bool" where
  "is_digit c = (let n = (of_char c :: int) in 48 \<le> n \<and> n \<le> 57)"

definition digit_val :: "char \<Rightarrow> int" where
  "digit_val c = of_char c - 48"

definition int_of_digits :: "string \<Rightarrow> int" where
  "int_of_digits ds = foldl (\<lambda>a c. 10 * a + digit_val c) 0 ds"

fun digits_ok :: "string \<Rightarrow> bool" where
  "digits_ok [] = False"
| "digits_ok [c] = is_digit c"
| "digits_ok (c # d # cs) =
     (is_digit c \<and> (if d = CHR ''_'' then digits_ok cs else digits_ok (d # cs)))"

definition py_int :: "nat \<Rightarrow> string \<Rightarrow> int option" where
  "py_int max_digits s0 =
     (let s = py_strip s0;
          neg = (s \<noteq> [] \<and> hd s = CHR ''-'');
          body = (if s \<noteq> [] \<and> (hd s = CHR ''-'' \<or> hd s = CHR ''+'') then tl s else s);
          ds = filter is_digit body
      in if \<not> digits_ok body then None
         else if 640 < length ds \<and> 0 < max_digits \<and> max_digits < length ds then None
         else Some (if neg then - int_of_digits ds else int_of_digits ds))"

subsection \<open>The tunnel configuration\<close>

text \<open>
  \<open>self.config\<close> is read with \<open>getattr(obj, attr, default)\<close>: an attribute is
  \<open>Absent\<close> (the default applies) or \<open>Present\<close>, and a present string attribute may
  still hold Python's \<open>None\<close>.
\<close>

datatype 'a attr = Absent | Present 'a

definition getattr :: "'a attr \<Rightarrow> 'a \<Rightarrow> 'a" where
  "getattr a d = (case a of Absent \<Rightarrow> d | Present v \<Rightarrow> v)"

record tunnel_config =
  name :: "string option attr"
  remote_forward_ip :: "string option attr"
  listen_ip :: "string option attr"
  forwarded_ports :: "int list attr"

text \<open>\<open>str(v)\<close> inside an f-string, and \<open>not v\<close>, for a value that is a string or \<open>None\<close>.\<close>

definition py_str :: "string option \<Rightarrow> string" where
  "py_str v = (case v of None \<Rightarrow> ''None'' | Some s \<Rightarrow> s)"

definition falsy :: "string option \<Rightarrow> bool" where
  "falsy v = (case v of None \<Rightarrow> True | Some s \<Rightarrow> s = [])"

text \<open>
  Modelled from the spec: the declared-state store's mutators \<open>add_port\<close> and
  \<open>remove_port\<close>, which belong to the configuration object and not to
  \<open>forward.py\<close>. Declared state is the set of ports the operator wants forwarded:
  \<open>add_port\<close> appends a port that is not listed yet, \<open>remove_port\<close> drops it.
\<close>

definition add_port :: "int \<Rightarrow> tunnel_config \<Rightarrow> tunnel_config" where
  "add_port port c =
     (let ports = getattr (forwarded_ports c) []
      in if port \<in> set ports then c else c\<lparr>forwarded_ports := Present (ports @ [port])\<rparr>)"

definition remove_port :: "int \<Rightarrow> tunnel_config \<Rightarrow> tunnel_config" where
  "remove_port port c =
     (let ports = getattr (forwarded_ports c) []
      in if port \<in> set ports then c\<lparr>forwarded_ports := Present (removeAll port ports)\<rparr> else c)"

subsection \<open>Unit names and paths\<close>

definition legacy_service_name :: "int \<Rightarrow> string" where
  "legacy_service_name port = ''vortexl2-fwd-'' @ py_str_int port @ ''.service''"

definition get_service_name :: "tunnel_config \<Rightarrow> int \<Rightarrow> string" where
  "get_service_name c port =
     (let tname = sanitize_unit_part (getattr (name c) (Some ''tunnel''))
      in ''vortexl2-fwd-'' @ tname @ ''-'' @ py_str_int port @ ''.service'')"

definition SYSTEMD_DIR :: string where
  "SYSTEMD_DIR = ''/etc/systemd/system''"

definition get_service_path :: "tunnel_config \<Rightarrow> int \<Rightarrow> string" where
  "get_service_path c port = SYSTEMD_DIR @ ''/'' @ get_service_name c port"

definition legacy_service_path :: "int \<Rightarrow> string" where
  "legacy_service_path port = SYSTEMD_DIR @ ''/'' @ legacy_service_name port"

text \<open>\<open>SERVICE_TEMPLATE.format(tunnel=..., port=..., remote_ip=..., listen_ip=...)\<close>.\<close>

definition SERVICE_TEMPLATE :: "string \<Rightarrow> string \<Rightarrow> string \<Rightarrow> string \<Rightarrow> string" where
  "SERVICE_TEMPLATE tunnel port remote_ip listen =
     ''[Unit]\<newline>'' @
     ''Description=VortexL2 Port Forward - '' @ tunnel @ '' - Port '' @ port @ ''\<newline>'' @
     ''After=network.target\<newline>'' @
     ''Requires=network.target\<newline>'' @
     ''\<newline>'' @
     ''[Service]\<newline>'' @
     ''Type=simple\<newline>'' @
     ''ExecStart=/usr/bin/socat TCP4-LISTEN:'' @ port @ '',bind='' @ listen @
       '',reuseaddr,fork TCP4:'' @ remote_ip @ '':'' @ port @ ''\<newline>'' @
     ''Restart=always\<newline>'' @
     ''RestartSec=5\<newline>'' @
     ''\<newline>'' @
     ''[Install]\<newline>'' @
     ''WantedBy=multi-user.target\<newline>''"

subsection \<open>The outside world\<close>

text \<open>
  Processes and the file system are an environment over a world \<open>'w\<close>: each primitive
  answers from the current world and returns the next one. \<open>Raised e\<close> and \<open>Some e\<close>
  are a raised exception with message \<open>e\<close>. Every call that can change something is
  also appended to a trace, so that the order of the calls can be stated.
\<close>

datatype proc_result = Completed int string string | Raised string

datatype event =
    Run string
  | Unlink string
  | WriteFile string string
  | AddPort int
  | RemovePort int

text \<open>
  \<open>Path.exists()\<close> is called outside every \<open>try\<close>. It answers \<open>False\<close> for a
  missing path, and for a \<open>ValueError\<close> of \<open>stat\<close>, but re-raises every other
  \<open>OSError\<close>, for instance \<open>ENAMETOOLONG\<close> for a file name of more than 255 bytes:
  \<open>path_exists\<close> answers \<open>Inr\<close> of a boolean or \<open>Inl\<close> of the message of the
  \<open>OSError\<close> it raises.
\<close>

record 'w env =
  subprocess_run :: "string \<Rightarrow> 'w \<Rightarrow> proc_result \<times> 'w"
  path_exists :: "string \<Rightarrow> 'w \<Rightarrow> string + bool"
  path_unlink :: "string \<Rightarrow> 'w \<Rightarrow> string option \<times> 'w"
  write_text :: "string \<Rightarrow> string \<Rightarrow> 'w \<Rightarrow> string option \<times> 'w"
  int_max_str_digits :: nat

record 'w state =
  world :: 'w
  config :: tunnel_config
  trace :: "event list"

text \<open>
  An exception that leaves a method, and the outcome of a method that can raise: the
  value it returns or the exception, next to the state reached by then.
\<close>

datatype exn = OSError string | ValueError string

datatype 'a res = Ok 'a | Exc exn

definition run_command :: "'w env \<Rightarrow> string \<Rightarrow> 'w state \<Rightarrow> (bool \<times> string) \<times> 'w state" where
  "run_command e cmd st =
     (case subprocess_run e cmd (world st) of
        (r, w) \<Rightarrow>
          (let st' = st\<lparr>world := w, trace := trace st @ [Run cmd]\<rparr>
           in case r of
                Completed returncode out err \<Rightarrow>
                  ((returncode = 0, if py_strip out \<noteq> [] then py_strip out else py_strip err), st')
              | Raised msg \<Rightarrow> ((False, msg), st')))"

definition unlink :: "'w env \<Rightarrow> string \<Rightarrow> 'w state \<Rightarrow> string option \<times> 'w state" where
  "unlink e path st =
     (case path_unlink e path (world st) of
        (r, w) \<Rightarrow> (r, st\<lparr>world := w, trace := trace st @ [Unlink path]\<rparr>))"

definition write_file :: "'w env \<Rightarrow> string \<Rightarrow> string \<Rightarrow> 'w state \<Rightarrow> string option \<times> 'w state" where
  "write_file e path content st =
     (case write_text e path content (world st) of
        (r, w) \<Rightarrow> (r, st\<lparr>world := w, trace := trace st @ [WriteFile path content]\<rparr>))"

definition exists :: "'w env \<Rightarrow> string \<Rightarrow> 'w state \<Rightarrow> bool res" where
  "exists e path st =
     (case path_exists e path (world st) of
        Inl msg \<Rightarrow> Exc (OSError msg)
      | Inr present \<Rightarrow> Ok present)"

definition config_add_port :: "int \<Rightarrow> 'w state \<Rightarrow> 'w state" where
  "config_add_port port st =
     st\<lparr>config := add_port port (config st), trace := trace st @ [AddPort port]\<rparr>"

definition config_remove_port :: "int \<Rightarrow> 'w state \<Rightarrow> 'w state" where
  "config_remove_port port st =
     st\<lparr>config := remove_port port (config st), trace := trace st @ [RemovePort port]\<rparr>"

subsection \<open>Single-port operations\<close>

text \<open>
  The methods of \<open>ForwardManager\<close>, each taking the state and returning the next one;
  a private method is named without its leading underscore. \<open>run_command\<close>, the
  swallowed \<open>unlink\<close> and the guarded write never raise; an exception of
  \<open>path.exists()\<close> leaves the method at once, with the state reached by then.
\<close>

definition migrate_legacy_unit :: "'w env \<Rightarrow> int \<Rightarrow> 'w state \<Rightarrow> unit res \<times> 'w state" where
  "migrate_legacy_unit e port st =
     (let legacy_name = legacy_service_name port;
          legacy_path = legacy_service_path port
      in case exists e legacy_path st of
           Exc x \<Rightarrow> (Exc x, st)
         | Ok present \<Rightarrow>
             if present then
               (let st1 = snd (run_command e (''systemctl stop '' @ legacy_name) st);
                    st2 = snd (run_command e (''systemctl disable '' @ legacy_name) st1);
                    st3 = snd (unlink e legacy_path st2)
                in (Ok (), snd (run_command e ''systemctl daemon-reload'' st3)))
             else (Ok (), st))"

definition create_forward ::
  "'w env \<Rightarrow> int \<Rightarrow> 'w state \<Rightarrow> (bool \<times> string) res \<times> 'w state" where
  "create_forward e port st =
     (let remote_ip = getattr (remote_forward_ip (config st)) None
      in if falsy remote_ip then (Ok (False, ''Remote forward IP not configured''), st)
         else
           (let listen = getattr (listen_ip (config st)) (Some ''0.0.0.0'')
            in case migrate_legacy_unit e port st of
                 (Exc x, st1) \<Rightarrow> (Exc x, st1)
               | (Ok u, st1) \<Rightarrow>
                   (let service_path = get_service_path (config st1) port;
                        service_name = get_service_name (config st1) port;
                        tunnel_name = getattr (name (config st1)) (Some ''tunnel'');
                        service_content =
                          SERVICE_TEMPLATE (py_str tunnel_name) (py_str_int port)
                            (py_str remote_ip) (py_str listen)
                    in case write_file e service_path service_content st1 of
                         (Some err, st2) \<Rightarrow>
                           (Ok (False, ''Failed to create service file: '' @ err), st2)
                       | (None, st2) \<Rightarrow>
                           (let st3 = snd (run_command e ''systemctl daemon-reload'' st2)
                            in case run_command e (''systemctl enable --now '' @ service_name) st3 of
                                 ((success, output), st4) \<Rightarrow>
                                   if \<not> success then
                                     (Ok (False, ''Failed to start forward for port ''
                                         @ py_str_int port @ '': '' @ output), st4)
                                   else
                                     (Ok (True, ''Port forward for '' @ py_str_int port
                                         @ '' created (listen '' @ py_str listen @ '' -> ''
                                         @ py_str remote_ip @ '':'' @ py_str_int port @ '')''),
                                      config_add_port port st4)))))"

text \<open>The body of \<open>for path in [...]\<close> in \<open>remove_forward\<close>.\<close>

definition unlink_if_exists :: "'w env \<Rightarrow> string \<Rightarrow> 'w state \<Rightarrow> unit res \<times> 'w state" where
  "unlink_if_exists e path st =
     (case exists e path st of
        Exc x \<Rightarrow> (Exc x, st)
      | Ok present \<Rightarrow> if present then (Ok (), snd (unlink e path st)) else (Ok (), st))"

definition remove_forward ::
  "'w env \<Rightarrow> int \<Rightarrow> 'w state \<Rightarrow> (bool \<times> string) res \<times> 'w state" where
  "remove_forward e port st =
     (let service_name = get_service_name (config st) port;
          legacy_name = legacy_service_name port;
          st1 = snd (run_command e (''systemctl stop '' @ service_name) st);
          st2 = snd (run_command e (''systemctl disable '' @ service_name) st1);
          st3 = snd (run_command e (''systemctl stop '' @ legacy_name) st2);
          st4 = snd (run_command e (''systemctl disable '' @ legacy_name) st3)
      in case unlink_if_exists e (get_service_path (config st4) port) st4 of
           (Exc x, st5) \<Rightarrow> (Exc x, st5)
         | (Ok u, st5) \<Rightarrow>
             (case unlink_if_exists e (legacy_service_path port) st5 of
                (Exc x, st6) \<Rightarrow> (Exc x, st6)
              | (Ok u, st6) \<Rightarrow>
                  (let st7 = snd (run_command e ''systemctl daemon-reload'' st6)
                   in (Ok (True, ''Port forward for '' @ py_str_int port @ '' removed''),
                       config_remove_port port st7))))"

subsection \<open>Batch operations on a comma-separated string\<close>

text \<open>\<open>s.split(",")\<close>: the pieces between the commas, empty pieces included.\<close>

fun split_comma :: "string \<Rightarrow> string list" where
  "split_comma [] = [[]]"
| "split_comma (c # cs) =
     (if c = CHR '','' then [] # split_comma cs
      else (case split_comma cs of [] \<Rightarrow> [[c]] | p # ps \<Rightarrow> (c # p) # ps))"

text \<open>\<open>[p.strip() for p in ports_str.split(",") if p.strip()]\<close>.\<close>

definition port_tokens :: "string \<Rightarrow> string list" where
  "port_tokens ports_str = filter (\<lambda>p. p \<noteq> []) (map py_strip (split_comma ports_str))"

definition invalid_port_line :: "string \<Rightarrow> string" where
  "invalid_port_line port_str = ''Port '' @ [CHR 0x27] @ port_str @ [CHR 0x27] @ '': Invalid port number''"

text \<open>
  The body of the loop: the \<open>try\<close> covers \<open>int(port_str)\<close> and the call of
  \<open>create_forward\<close> alike, and \<open>except ValueError\<close> catches a \<open>ValueError\<close> of
  either; any other exception leaves the loop and the method.
\<close>

definition add_multiple_forwards_step ::
  "'w env \<Rightarrow> string \<Rightarrow> string list \<Rightarrow> 'w state \<Rightarrow> string list res \<times> 'w state" where
  "add_multiple_forwards_step e port_str results st =
     (case py_int (int_max_str_digits e) port_str of
        None \<Rightarrow> (Ok (results @ [invalid_port_line port_str]), st)
      | Some port \<Rightarrow>
          (case create_forward e port st of
             (Ok (success, msg), st') \<Rightarrow>
               (Ok (results @ [''Port '' @ py_str_int port @ '': '' @ msg]), st')
           | (Exc (ValueError v), st') \<Rightarrow> (Ok (results @ [invalid_port_line port_str]), st')
           | (Exc (OSError v), st') \<Rightarrow> (Exc (OSError v), st')))"

fun add_multiple_forwards_loop ::
  "'w env \<Rightarrow> string list \<Rightarrow> string list \<Rightarrow> 'w state \<Rightarrow> string list res \<times> 'w state" where
  "add_multiple_forwards_loop e [] results st = (Ok results, st)"
| "add_multiple_forwards_loop e (port_str # ports) results st =
     (case add_multiple_forwards_step e port_str results st of
        (Exc x, st') \<Rightarrow> (Exc x, st')
      | (Ok results', st') \<Rightarrow> add_multiple_forwards_loop e ports results' st')"

definition add_multiple_forwards ::
  "'w env \<Rightarrow> string \<Rightarrow> 'w state \<Rightarrow> (bool \<times> string) res \<times> 'w state" where
  "add_multiple_forwards e ports_str st =
     (case add_multiple_forwards_loop e (port_tokens ports_str) [] st of
        (Exc x, st') \<Rightarrow> (Exc x, st')
      | (Ok results, st') \<Rightarrow> (Ok (True, join ''\<newline>'' results), st'))"

definition remove_multiple_forwards_step ::
  "'w env \<Rightarrow> string \<Rightarrow> string list \<Rightarrow> 'w state \<Rightarrow> string list res \<times> 'w state" where
  "remove_multiple_forwards_step e port_str results st =
     (case py_int (int_max_str_digits e) port_str of
        None \<Rightarrow> (Ok (results @ [invalid_port_line port_str]), st)
      | Some port \<Rightarrow>
          (case remove_forward e port st of
             (Ok (success, msg), st') \<Rightarrow>
               (Ok (results @ [''Port '' @ py_str_int port @ '': '' @ msg]), st')
           | (Exc (ValueError v), st') \<Rightarrow> (Ok (results @ [invalid_port_line port_str]), st')
           | (Exc (OSError v), st') \<Rightarrow> (Exc (OSError v), st')))"

fun remove_multiple_forwards_loop ::
  "'w env \<Rightarrow> string list \<Rightarrow> string list \<Rightarrow> 'w state \<Rightarrow> string list res \<times> 'w state" where
  "remove_multiple_forwards_loop e [] results st = (Ok results, st)"
| "remove_multiple_forwards_loop e (port_str # ports) results st =
     (case remove_multiple_forwards_step e port_str results st of
        (Exc x, st') \<Rightarrow> (Exc x, st')
      | (Ok results', st') \<Rightarrow> remove_multiple_forwards_loop e ports results' st')"

definition remove_multiple_forwards ::
  "'w env \<Rightarrow> string \<Rightarrow> 'w state \<Rightarrow> (bool \<times> string) res \<times> 'w state" where
  "remove_multiple_forwards e ports_str st =
     (case remove_multiple_forwards_loop e (port_tokens ports_str) [] st of
        (Exc x, st') \<Rightarrow> (Exc x, st')
      | (Ok results, st') \<Rightarrow> (Ok (True, join ''\<newline>'' results), st'))"

subsection \<open>Listing\<close>

text \<open>A record of \<open>list_forwards\<close> is a Python dict with string keys, kept in insertion order.\<close>

datatype pyval = IntV int | StrV string

type_synonym pydict = "(string \<times> pyval) list"

definition list_forwards_step ::
  "'w env \<Rightarrow> int \<Rightarrow> pydict list \<times> 'w state \<Rightarrow> pydict list \<times> 'w state" where
  "list_forwards_step e port acc =
     (case acc of
        (forwards, st) \<Rightarrow>
          (let new_unit = get_service_name (config st) port;
               legacy_unit = legacy_service_name port
           in case run_command e (''systemctl is-active '' @ new_unit) st of
                ((success, output), st1) \<Rightarrow>
                  (case (if success then ((output, new_unit), st1)
                         else (case run_command e (''systemctl is-active '' @ legacy_unit) st1 of
                                 ((success2, output2), st2) \<Rightarrow>
                                   ((if success2 then output2 else ''inactive'',
                                     if success2 then legacy_unit else new_unit), st2))) of
                     ((status, active_unit), st2) \<Rightarrow>
                       (case run_command e (''systemctl is-enabled '' @ active_unit) st2 of
                          ((success3, output3), st3) \<Rightarrow>
                            (let enabled = (if success3 then output3 else ''disabled'');
                                 remote_ip = getattr (remote_forward_ip (config st3)) (Some ''-'')
                             in (forwards @
                                   [[(''port'', IntV port),
                                     (''status'', StrV status),
                                     (''enabled'', StrV enabled),
                                     (''remote'', StrV (py_str remote_ip @ '':'' @ py_str_int port))]],
                                 st3))))))"

fun list_forwards_loop ::
  "'w env \<Rightarrow> int list \<Rightarrow> pydict list \<times> 'w state \<Rightarrow> pydict list \<times> 'w state" where
  "list_forwards_loop e [] acc = acc"
| "list_forwards_loop e (port # ports) acc =
     list_forwards_loop e ports (list_forwards_step e port acc)"

definition list_forwards :: "'w env \<Rightarrow> 'w state \<Rightarrow> pydict list \<times> 'w state" where
  "list_forwards e st =
     list_forwards_loop e (getattr (forwarded_ports (config st)) []) ([], st)"

subsection \<open>Operations on every declared port\<close>

text \<open>
  Each \<open>for port in forwarded_ports\<close> loop is a step function for its body and a
  recursion over the ports read when the loop starts. The only mutation of the port list
  inside a loop is \<open>add_port\<close> for the port at hand, which is declared already, so
  the list does not change while it is iterated. The bodies of \<open>start_all_forwards\<close>
  and \<open>restart_all_forwards\<close> call \<open>path.exists()\<close> and can raise, which ends the
  loop; the body of \<open>stop_all_forwards\<close> only runs commands and cannot.
\<close>

definition start_all_forwards_step ::
  "'w env \<Rightarrow> int \<Rightarrow> string list \<Rightarrow> 'w state \<Rightarrow> string list res \<times> 'w state" where
  "start_all_forwards_step e port results st =
     (case migrate_legacy_unit e port st of
        (Exc x, st1) \<Rightarrow> (Exc x, st1)
      | (Ok u, st1) \<Rightarrow>
          (let service_name = get_service_name (config st1) port;
               service_path = get_service_path (config st1) port
           in case exists e service_path st1 of
                Exc x \<Rightarrow> (Exc x, st1)
              | Ok present \<Rightarrow>
                  if \<not> present then
                    (case create_forward e port st1 of
                       (Exc x, st2) \<Rightarrow> (Exc x, st2)
                     | (Ok (success, msg), st2) \<Rightarrow>
                         if success then
                           (Ok (results @ [''Port '' @ py_str_int port
                              @ '': recreated and started'']), st2)
                         else
                           (Ok (results @ [''Port '' @ py_str_int port
                              @ '': failed to recreate - '' @ msg]), st2))
                  else
                    (case run_command e (''systemctl start '' @ service_name) st1 of
                       ((success, output), st2) \<Rightarrow>
                         if success then
                           (Ok (results @ [''Port '' @ py_str_int port @ '': started'']), st2)
                         else
                           (Ok (results @ [''Port '' @ py_str_int port
                              @ '': failed to start - '' @ output]), st2))))"

fun start_all_forwards_loop ::
  "'w env \<Rightarrow> int list \<Rightarrow> string list \<Rightarrow> 'w state \<Rightarrow> string list res \<times> 'w state" where
  "start_all_forwards_loop e [] results st = (Ok results, st)"
| "start_all_forwards_loop e (port # ports) results st =
     (case start_all_forwards_step e port results st of
        (Exc x, st') \<Rightarrow> (Exc x, st')
      | (Ok results', st') \<Rightarrow> start_all_forwards_loop e ports results' st')"

text \<open>\<open>if not results: return True, "No port forwards configured"\<close> and the final return.\<close>

definition all_result :: "string list \<times> 'w state \<Rightarrow> (bool \<times> string) \<times> 'w state" where
  "all_result acc =
     (case acc of
        (results, st) \<Rightarrow>
          if results = [] then ((True, ''No port forwards configured''), st)
          else ((True, join ''\<newline>'' results), st))"

definition all_outcome :: "string list res \<times> 'w state \<Rightarrow> (bool \<times> string) res \<times> 'w state" where
  "all_outcome r =
     (case r of
        (Exc x, st) \<Rightarrow> (Exc x, st)
      | (Ok results, st) \<Rightarrow> (Ok (fst (all_result (results, st))), st))"

definition start_all_forwards :: "'w env \<Rightarrow> 'w state \<Rightarrow> (bool \<times> string) res \<times> 'w state" where
  "start_all_forwards e st =
     all_outcome (start_all_forwards_loop e (getattr (forwarded_ports (config st)) []) [] st)"

definition stop_all_forwards_step ::
  "'w env \<Rightarrow> int \<Rightarrow> string list \<times> 'w state \<Rightarrow> string list \<times> 'w state" where
  "stop_all_forwards_step e port acc =
     (case acc of
        (results, st) \<Rightarrow>
          (let new_unit = get_service_name (config st) port;
               legacy_unit = legacy_service_name port
           in case run_command e (''systemctl stop '' @ new_unit) st of
                ((success, output), st1) \<Rightarrow>
                  (let results' =
                         (if success then
                            results @ [''Port '' @ py_str_int port @ '': stopped ('' @ new_unit @ '')'']
                          else results)
                   in (results', snd (run_command e (''systemctl stop '' @ legacy_unit) st1)))))"

fun stop_all_forwards_loop ::
  "'w env \<Rightarrow> int list \<Rightarrow> string list \<times> 'w state \<Rightarrow> string list \<times> 'w state" where
  "stop_all_forwards_loop e [] acc = acc"
| "stop_all_forwards_loop e (port # ports) acc =
     stop_all_forwards_loop e ports (stop_all_forwards_step e port acc)"

definition stop_all_forwards :: "'w env \<Rightarrow> 'w state \<Rightarrow> (bool \<times> string) \<times> 'w state" where
  "stop_all_forwards e st =
     all_result (stop_all_forwards_loop e (getattr (forwarded_ports (config st)) []) ([], st))"

definition restart_all_forwards_step ::
  "'w env \<Rightarrow> int \<Rightarrow> string list \<Rightarrow> 'w state \<Rightarrow> string list res \<times> 'w state" where
  "restart_all_forwards_step e port results st =
     (case migrate_legacy_unit e port st of
        (Exc x, st1) \<Rightarrow> (Exc x, st1)
      | (Ok u, st1) \<Rightarrow>
          (let service_name = get_service_name (config st1) port;
               service_path = get_service_path (config st1) port
           in case exists e service_path st1 of
                Exc x \<Rightarrow> (Exc x, st1)
              | Ok present \<Rightarrow>
                  if \<not> present then
                    (case create_forward e port st1 of
                       (Exc x, st2) \<Rightarrow> (Exc x, st2)
                     | (Ok (success, msg), st2) \<Rightarrow>
                         if success then
                           (Ok (results @ [''Port '' @ py_str_int port
                              @ '': recreated and started'']), st2)
                         else
                           (Ok (results @ [''Port '' @ py_str_int port
                              @ '': failed to recreate - '' @ msg]), st2))
                  else
                    (let remote_ip = getattr (remote_forward_ip (config st1)) None
                     in if falsy remote_ip then
                          (Ok (results @ [''Port '' @ py_str_int port
                             @ '': remote_forward_ip not set'']), st1)
                        else
                          (let listen = getattr (listen_ip (config st1)) (Some ''0.0.0.0'');
                               tunnel_name = getattr (name (config st1)) (Some ''tunnel'');
                               service_content =
                                 SERVICE_TEMPLATE (py_str tunnel_name) (py_str_int port)
                                   (py_str remote_ip) (py_str listen)
                           in case write_file e service_path service_content st1 of
                                (Some err, st2) \<Rightarrow>
                                  (Ok (results @ [''Port '' @ py_str_int port
                                     @ '': failed to write service file - '' @ err]), st2)
                              | (None, st2) \<Rightarrow>
                                  (let st3 = snd (run_command e ''systemctl daemon-reload'' st2)
                                   in case run_command e (''systemctl restart '' @ service_name) st3 of
                                        ((success, output), st4) \<Rightarrow>
                                          if success then
                                            (Ok (results @ [''Port '' @ py_str_int port
                                               @ '': restarted'']), st4)
                                          else
                                            (Ok (results @ [''Port '' @ py_str_int port
                                               @ '': failed - '' @ output]), st4))))))"

fun restart_all_forwards_loop ::
  "'w env \<Rightarrow> int list \<Rightarrow> string list \<Rightarrow> 'w state \<Rightarrow> string list res \<times> 'w state" where
  "restart_all_forwards_loop e [] results st = (Ok results, st)"
| "restart_all_forwards_loop e (port # ports) results st =
     (case restart_all_forwards_step e port results st of
        (Exc x, st') \<Rightarrow> (Exc x, st')
      | (Ok results', st') \<Rightarrow> restart_all_forwards_loop e ports results' st')"

definition restart_all_forwards :: "'w env \<Rightarrow> 'w state \<Rightarrow> (bool \<times> string) res \<times> 'w state" where
  "restart_all_forwards e st =
     all_outcome (restart_all_forwards_loop e (getattr (forwarded_ports (config st)) []) [] st)"

definition install_template :: "'w state \<Rightarrow> (bool \<times> string) \<times> 'w state" where
  "install_template st = ((True, ''No template required (per-port units)''), st)"

subsection \<open>Auxiliary notions for the proofs\<close>

text \<open>No two dashes in a row: what \<open>collapse_dashes\<close> establishes.\<close>

fun no_double_dash :: "string \<Rightarrow> bool" where
  "no_double_dash [] = True"
| "no_double_dash [c] = True"
| "no_double_dash (c # d # cs) = (\<not> (is_dash c \<and> is_dash d) \<and> no_double_dash (d # cs))"

text \<open>The shape of every result of \<open>sanitize_unit_part\<close>.\<close>

definition sanitized :: "string \<Rightarrow> bool" where
  "sanitized r =
     (r \<noteq> [] \<and> list_all (\<lambda>c. allowed_char c \<and> py_lower_char c = c) r
      \<and> \<not> is_dash (hd r) \<and> \<not> is_dash (last r) \<and> no_double_dash r)"

text \<open>
  The transcript entry that a batch operation owes a token: the invalid-port entry when
  \<open>int\<close> rejects it, an entry starting with the parsed port otherwise.
\<close>

definition batch_entry :: "nat \<Rightarrow> string \<Rightarrow> string \<Rightarrow> bool" where
  "batch_entry max_digits port_str line =
     (case py_int max_digits port_str of
        None \<Rightarrow> line = invalid_port_line port_str
      | Some port \<Rightarrow> take (length (''Port '' @ py_str_int port @ '': '')) line
                       = ''Port '' @ py_str_int port @ '': '')"

text \<open>An environment whose \<open>path.exists()\<close> never raises.\<close>

definition exists_answers :: "'w env \<Rightarrow> bool" where
  "exists_answers e = (\<forall>path w. \<exists>present. path_exists e path w = Inr present)"

definition os_error :: "exn \<Rightarrow> bool" where
  "os_error x = (case x of OSError msg \<Rightarrow> True | ValueError msg \<Rightarrow> False)"

subsection \<open>The listing as the specification words it\<close>

text \<open>
  The status of a port and the unit that produced it: the canonical \<open>is-active\<close> answer
  when that query succeeds, otherwise the legacy answer when that succeeds, otherwise
  \<open>inactive\<close> (and the canonical unit).
\<close>

definition spec_status :: "'w env \<Rightarrow> int \<Rightarrow> 'w state \<Rightarrow> (string \<times> string) \<times> 'w state" where
  "spec_status e port st =
     (let canonical = run_command e (''systemctl is-active '' @ get_service_name (config st) port) st
      in if fst (fst canonical) then
           ((snd (fst canonical), get_service_name (config st) port), snd canonical)
         else
           (let legacy = run_command e (''systemctl is-active '' @ legacy_service_name port)
                           (snd canonical)
            in if fst (fst legacy) then ((snd (fst legacy), legacy_service_name port), snd legacy)
               else ((''inactive'', get_service_name (config st) port), snd legacy)))"

definition spec_record :: "'w env \<Rightarrow> int \<Rightarrow> 'w state \<Rightarrow> pydict \<times> 'w state" where
  "spec_record e port st =
     (let status = spec_status e port st;
          query = run_command e (''systemctl is-enabled '' @ snd (fst status)) (snd status);
          enabled = (if fst (fst query) then snd (fst query) else ''disabled'')
      in ([(''port'', IntV port),
           (''status'', StrV (fst (fst status))),
           (''enabled'', StrV enabled),
           (''remote'', StrV (py_str (getattr (remote_forward_ip (config st)) (Some ''-''))
                              @ '':'' @ py_str_int port))],
          snd query))"

fun spec_list :: "'w env \<Rightarrow> int list \<Rightarrow> 'w state \<Rightarrow> pydict list \<times> 'w state" where
  "spec_list e [] st = ([], st)"
| "spec_list e (port # ports) st =
     (let first = spec_record e port st;
          others = spec_list e ports (snd first)
      in (fst first # fst others, snd others))"

subsection \<open>Example environments\<close>

text \<open>
  A world that is a list of unit files (path and content). In \<open>env_ok\<close> every command
  exits with code 0 and every file operation succeeds; in \<open>env_failing\<close> every command
  exits with code 5 and every unlink and write raises. In both, \<open>path.exists()\<close>
  answers whether the file is there.
\<close>

type_synonym files = "(string \<times> string) list"

definition env_ok :: "files env" where
  "env_ok =
     \<lparr>subprocess_run = (\<lambda>cmd w. (Completed 0 [] [], w)),
      path_exists = (\<lambda>path w. Inr (map_of w path \<noteq> None)),
      path_unlink = (\<lambda>path w. (None, filter (\<lambda>f. fst f \<noteq> path) w)),
      write_text = (\<lambda>path content w. (None, (path, content) # filter (\<lambda>f. fst f \<noteq> path) w)),
      int_max_str_digits = 4300\<rparr>"

definition env_failing :: "files env" where
  "env_failing =
     \<lparr>subprocess_run = (\<lambda>cmd w. (Completed 5 [] ''Unit not loaded.'', w)),
      path_exists = (\<lambda>path w. Inr (map_of w path \<noteq> None)),
      path_unlink = (\<lambda>path w. (Some ''Permission denied'', w)),
      write_text = (\<lambda>path content w. (Some ''Permission denied'', w)),
      int_max_str_digits = 4300\<rparr>"

text \<open>
  Only the legacy unit of port 8080 is known to the controller: its \<open>is-active\<close> and
  \<open>is-enabled\<close> queries succeed, every other command exits with code 4.
\<close>

definition env_legacy_active :: "files env" where
  "env_legacy_active =
     \<lparr>subprocess_run =
        (\<lambda>cmd w.
           if cmd = ''systemctl is-active vortexl2-fwd-8080.service''
           then (Completed 0 ''active\<newline>'' [], w)
           else if cmd = ''systemctl is-enabled vortexl2-fwd-8080.service''
           then (Completed 0 ''enabled\<newline>'' [], w)
           else (Completed 4 [] ''Unit could not be found.\<newline>'', w)),
      path_exists = (\<lambda>path w. Inr (map_of w path \<noteq> None)),
      path_unlink = (\<lambda>path w. (None, filter (\<lambda>f. fst f \<noteq> path) w)),
      write_text = (\<lambda>path content w. (None, (path, content) # filter (\<lambda>f. fst f \<noteq> path) w)),
      int_max_str_digits = 4300\<rparr>"

text \<open>As \<open>env_ok\<close>, but no file can be unlinked.\<close>

definition env_unlink_fails :: "files env" where
  "env_unlink_fails = env_ok\<lparr>path_unlink := (\<lambda>path w. (Some ''Permission denied'', w))\<rparr>"

text \<open>
  As \<open>env_ok\<close>, but the controller fails every command with two lines on standard
  error.
\<close>

definition env_start_fails :: "files env" where
  "env_start_fails =
     env_ok\<lparr>subprocess_run :=
       (\<lambda>cmd w. (Completed 1 [] ''Job failed.\<newline>See systemctl status.\<newline>'', w))\<rparr>"

text \<open>
  A file system with the usual limit of 255 bytes on a file name: \<open>stat\<close>, and with it
  \<open>path.exists()\<close>, raises \<open>ENAMETOOLONG\<close> for a longer one. Commands, unlinks
  and writes fail as in \<open>env_failing\<close>.
\<close>

definition file_name :: "string \<Rightarrow> string" where
  "file_name path = rev (takeWhile (\<lambda>c. c \<noteq> CHR ''/'') (rev path))"

definition env_name_max :: "files env" where
  "env_name_max =
     env_failing\<lparr>path_exists :=
       (\<lambda>path w. if 255 < length (file_name path) then Inl ''[Errno 36] File name too long''
                  else Inr (map_of w path \<noteq> None))\<rparr>"

definition cfg_office :: tunnel_config where
  "cfg_office =
     \<lparr>name = Present (Some ''Office VPN''),
      remote_forward_ip = Present (Some ''10.30.30.2''),
      listen_ip = Present (Some ''0.0.0.0''),
      forwarded_ports = Present [8080]\<rparr>"

definition cfg_no_remote :: tunnel_config where
  "cfg_no_remote = cfg_office\<lparr>remote_forward_ip := Present None\<rparr>"

definition legacy_only :: files where
  "legacy_only = [(''/etc/systemd/system/vortexl2-fwd-8080.service'', ''legacy unit'')]"

definition st_legacy :: "files state" where
  "st_legacy = \<lparr>world = legacy_only, config = cfg_office, trace = []\<rparr>"

definition st_legacy_no_remote :: "files state" where
  "st_legacy_no_remote = \<lparr>world = legacy_only, config = cfg_no_remote, trace = []\<rparr>"

definition st_both_no_remote :: "files state" where
  "st_both_no_remote =
     \<lparr>world = (''/etc/systemd/system/vortexl2-fwd-office-vpn-8080.service'', ''unit'') # legacy_only,
      config = cfg_no_remote, trace = []\<rparr>"

definition st_no_remote :: "files state" where
  "st_no_remote = \<lparr>world = [], config = cfg_no_remote, trace = []\<rparr>"

definition st_empty :: "files state" where
  "st_empty = \<lparr>world = [], config = cfg_office\<lparr>forwarded_ports := Present []\<rparr>, trace = []\<rparr>"

text \<open>A tunnel whose name has 230 characters: the unit name of port 8080 has 256.\<close>

definition st_long_name :: "files state" where
  "st_long_name =
     \<lparr>world = [], config = cfg_office\<lparr>name := Present (Some (replicate 230 CHR ''a''))\<rparr>,
      trace = []\<rparr>"

section \<open>Properties\<close>

subsection \<open>Sanitization and unit names\<close>

lemma strip_where_ends:
  assumes "strip_where P s \<noteq> []"
  shows "\<not> P (hd (strip_where P s))" and "\<not> P (last (strip_where P s))"
proof -
  let ?t = "dropWhile P s"
  let ?u = "dropWhile P (rev ?t)"
  from assms have u: "?u \<noteq> []" by (simp add: strip_where_def)
  then have t: "?t \<noteq> []" by (metis dropWhile.simps(1) rev.simps(1))
  from u have "\<not> P (hd ?u)" by (rule hd_dropWhile)
  with u show "\<not> P (last (strip_where P s))" by (simp add: strip_where_def last_rev)
  from t have ht: "\<not> P (hd ?t)" by (rule hd_dropWhile)
  have "last ?u = last (rev ?t)"
    using u by (metis last_appendR takeWhile_dropWhile_id)
  then have "hd (rev ?u) = hd ?t" using u t by (simp add: hd_rev last_rev)
  with ht show "\<not> P (hd (strip_where P s))" by (simp add: strip_where_def)
qed

lemma nodd_Cons: "no_double_dash (c # s) = (no_double_dash s \<and> (s \<noteq> [] \<longrightarrow> \<not> (is_dash c \<and> is_dash (hd s))))"
  by (cases s) auto

lemma nodd_append: "no_double_dash (xs @ ys) \<Longrightarrow> no_double_dash xs \<and> no_double_dash ys"
proof (induction xs)
  case Nil
  then show ?case by simp
next
  case (Cons x xs)
  then show ?case by (cases xs) (auto simp: nodd_Cons)
qed

lemma hd_collapse: "s \<noteq> [] \<Longrightarrow> collapse_dashes s \<noteq> [] \<and> hd (collapse_dashes s) = hd s"
  by (cases s) (auto simp: is_dash_def)

lemma nodd_collapse: "no_double_dash (collapse_dashes s)"
proof (induction s rule: collapse_dashes.induct)
  case 1
  then show ?case by simp
next
  case (2 c cs)
  show ?case
  proof (cases "is_dash c")
    case True
    let ?r = "dropWhile is_dash cs"
    have "?r \<noteq> [] \<Longrightarrow> \<not> is_dash (hd (collapse_dashes ?r))"
      using hd_collapse [of ?r] hd_dropWhile [of is_dash cs] by simp
    moreover have "?r = [] \<Longrightarrow> collapse_dashes ?r = []" by (metis collapse_dashes.simps(1))
    ultimately show ?thesis using True 2 by (auto simp: nodd_Cons)
  next
    case False
    then show ?thesis using 2 by (auto simp: nodd_Cons)
  qed
qed

lemma collapse_id: "no_double_dash s \<Longrightarrow> collapse_dashes s = s"
proof (induction s rule: no_double_dash.induct)
  case (3 c d cs)
  then show ?case by (cases "is_dash c") (auto simp: is_dash_def)
qed (auto simp: is_dash_def)


lemma strip_where_id:
  assumes "s = [] \<or> (\<not> P (hd s) \<and> \<not> P (last s))"
  shows "strip_where P s = s"
proof (cases "s = []")
  case True
  then show ?thesis by (simp add: strip_where_def)
next
  case False
  with assms have h: "\<not> P (hd s)" and l: "\<not> P (last s)" by auto
  from h have "dropWhile P s = s" by (simp add: dropWhile_eq_self_iff)
  moreover from l False have "dropWhile P (rev s) = rev s"
    by (simp add: dropWhile_eq_self_iff hd_rev)
  ultimately show ?thesis by (simp add: strip_where_def)
qed

lemma strip_where_set: "set (strip_where P s) \<subseteq> set s"
  unfolding strip_where_def
  by (metis set_dropWhileD set_rev subsetI)

lemma strip_where_split:
  "\<exists>pre post. s = pre @ strip_where P s @ post"
proof -
  let ?t = "dropWhile P s"
  have "s = takeWhile P s @ ?t" by simp
  moreover have "rev ?t = takeWhile P (rev ?t) @ dropWhile P (rev ?t)" by simp
  then have "?t = rev (dropWhile P (rev ?t)) @ rev (takeWhile P (rev ?t))"
    by (metis rev_append rev_rev_ident)
  ultimately have "s = takeWhile P s @ strip_where P s @ rev (takeWhile P (rev ?t))"
    by (simp add: strip_where_def)
  then show ?thesis by blast
qed

lemma py_lower_char_idem: "py_lower_char (py_lower_char c) = py_lower_char c"
  by (auto simp: py_lower_char_def Let_def)

lemma allowed_not_space: "allowed_char c \<Longrightarrow> \<not> py_isspace c"
  by (auto simp: allowed_char_def py_isalnum_def py_isspace_def Let_def)

lemma allowed_dash: "allowed_char CHR ''-''"
  by (simp add: allowed_char_def)

lemma lower_dash: "py_lower_char CHR ''-'' = CHR ''-''"
  by (simp add: py_lower_char_def)

lemma sanitized_tunnel: "sanitized ''tunnel''"
  by code_simp

lemma sanitize_sanitized: "sanitized (sanitize_unit_part x)"
proof -
  define m where "m = map (\<lambda>c. if allowed_char c then c else CHR ''-'')
      (py_lower (py_strip (case x of None \<Rightarrow> [] | Some y \<Rightarrow> y)))"
  define r where "r = strip_where is_dash (collapse_dashes m)"
  have res: "sanitize_unit_part x = (if r = [] then ''tunnel'' else r)"
    by (simp add: sanitize_unit_part_def m_def r_def Let_def)
  have m: "\<forall>c\<in>set m. allowed_char c \<and> py_lower_char c = c"
    by (auto simp: m_def py_lower_def py_lower_char_idem lower_dash allowed_dash)
  have "set (collapse_dashes m) \<subseteq> set m"
    by (induction m rule: collapse_dashes.induct) (auto simp: is_dash_def dest: set_dropWhileD)
  with strip_where_set [of is_dash "collapse_dashes m"] have "set r \<subseteq> set m"
    by (simp add: r_def)
  with m have 1: "list_all (\<lambda>c. allowed_char c \<and> py_lower_char c = c) r"
    by (auto simp: list_all_iff)
  obtain pre post where "collapse_dashes m = pre @ r @ post"
    using strip_where_split [of "collapse_dashes m" is_dash] by (auto simp: r_def)
  with nodd_collapse [of m] have 2: "no_double_dash r"
    by (metis nodd_append)
  have 3: "r \<noteq> [] \<Longrightarrow> \<not> is_dash (hd r) \<and> \<not> is_dash (last r)"
    using strip_where_ends [of is_dash "collapse_dashes m"] by (simp add: r_def)
  show ?thesis
    using 1 2 3 sanitized_tunnel by (simp add: res sanitized_def)
qed

lemma sanitized_fix:
  assumes "sanitized r"
  shows "sanitize_unit_part (Some r) = r"
proof -
  from assms have ne: "r \<noteq> []" and al: "\<forall>c\<in>set r. allowed_char c \<and> py_lower_char c = c"
    and hd: "\<not> is_dash (hd r)" and la: "\<not> is_dash (last r)" and nd: "no_double_dash r"
    by (auto simp: sanitized_def list_all_iff)
  from ne al have "allowed_char (hd r)" "allowed_char (last r)"
    by simp_all
  then have "\<not> py_isspace (hd r)" "\<not> py_isspace (last r)"
    by (simp_all add: allowed_not_space)
  then have 1: "py_strip r = r" by (simp add: py_strip_def strip_where_id)
  from al have 2: "py_lower r = r" by (simp add: py_lower_def map_idI)
  from al have 3: "map (\<lambda>c. if allowed_char c then c else CHR ''-'') r = r"
    by (simp add: map_idI)
  from nd have 4: "collapse_dashes r = r" by (rule collapse_id)
  from hd la have 5: "strip_where is_dash r = r" by (simp add: strip_where_id)
  show ?thesis using ne by (simp add: sanitize_unit_part_def 1 2 3 4 5)
qed

text \<open>
  C8: sanitization is total and deterministic, being a function on every string (and on
  \<open>None\<close>), and it is idempotent: sanitizing a sanitized name changes nothing.
\<close>

theorem sanitize_idempotent:
  "sanitize_unit_part (Some (sanitize_unit_part x)) = sanitize_unit_part x"
  by (rule sanitized_fix) (rule sanitize_sanitized)

theorem sanitize_idempotent_witness:
  "sanitize_unit_part (Some ''  My Tunnel!! --x  '') = ''my-tunnel-x''
   \<and> sanitize_unit_part (Some ''my-tunnel-x'') = ''my-tunnel-x''"
proof -
  have first: "sanitize_unit_part (Some ''  My Tunnel!! --x  '') = ''my-tunnel-x''"
    by code_simp
  with sanitize_idempotent [of "Some ''  My Tunnel!! --x  ''"] show ?thesis
    by simp
qed


lemma sanitize_nonempty: "sanitize_unit_part x \<noteq> []"
  using sanitize_sanitized [of x] by (simp add: sanitized_def)

lemma sanitize_last: "last (sanitize_unit_part x) \<noteq> CHR ''-''"
  using sanitize_sanitized [of x] by (simp add: sanitized_def is_dash_def)

lemma digit_val_digit_char: "0 \<le> d \<Longrightarrow> d < 10 \<Longrightarrow> digit_val (digit_char d) = d"
  by (simp add: digit_val_def digit_char_def)

lemma is_digit_digit_char: "0 \<le> d \<Longrightarrow> d < 10 \<Longrightarrow> is_digit (digit_char d)"
  by (simp add: is_digit_def digit_char_def)

lemma int_of_digits_snoc: "int_of_digits (ds @ [c]) = 10 * int_of_digits ds + digit_val c"
  by (simp add: int_of_digits_def)

lemma int_of_digits_str_digits: "0 \<le> n \<Longrightarrow> int_of_digits (str_digits n) = n"
proof (induction n rule: str_digits.induct)
  case (1 n)
  show ?case
  proof (cases "n < 10")
    case True
    with 1 show ?thesis
      by (simp add: str_digits.simps [of n] int_of_digits_def digit_val_digit_char)
  next
    case False
    with 1 show ?thesis
      by (simp add: str_digits.simps [of n] int_of_digits_snoc digit_val_digit_char)
  qed
qed

lemma str_digits_digits: "0 \<le> n \<Longrightarrow> list_all is_digit (str_digits n) \<and> str_digits n \<noteq> []"
proof (induction n rule: str_digits.induct)
  case (1 n)
  show ?case
  proof (cases "n < 10")
    case True
    with 1 show ?thesis by (simp add: str_digits.simps [of n] is_digit_digit_char)
  next
    case False
    with 1 show ?thesis by (simp add: str_digits.simps [of n] is_digit_digit_char)
  qed
qed

lemma str_digits_inj: "0 \<le> n \<Longrightarrow> 0 \<le> m \<Longrightarrow> str_digits n = str_digits m \<Longrightarrow> n = m"
  by (metis int_of_digits_str_digits)

lemma is_digit_not_dash: "is_digit c \<Longrightarrow> c \<noteq> CHR ''-''"
  by (auto simp: is_digit_def)

lemma split_first_occurrence:
  "x \<notin> set as \<Longrightarrow> x \<notin> set bs \<Longrightarrow> as @ x # cs = bs @ x # ds \<Longrightarrow> as = bs \<and> cs = ds"
proof (induction as arbitrary: bs)
  case Nil
  then show ?case by (cases bs) auto
next
  case (Cons a as)
  then show ?case by (cases bs) auto
qed

lemma split_last_dash:
  assumes "xs @ CHR ''-'' # ds = ys @ CHR ''-'' # es"
    and "CHR ''-'' \<notin> set ds" and "CHR ''-'' \<notin> set es"
  shows "xs = ys \<and> ds = es"
proof -
  from assms(1) have "rev (xs @ CHR ''-'' # ds) = rev (ys @ CHR ''-'' # es)"
    by simp
  then have "rev ds @ CHR ''-'' # rev xs = rev es @ CHR ''-'' # rev ys"
    by simp
  moreover have "CHR ''-'' \<notin> set (rev ds)" "CHR ''-'' \<notin> set (rev es)"
    using assms(2,3) by simp_all
  ultimately have "rev ds = rev es \<and> rev xs = rev ys"
    by (rule split_first_occurrence [rotated 2])
  then show ?thesis by simp
qed

lemma str_digits_no_dash: "0 \<le> n \<Longrightarrow> CHR ''-'' \<notin> set (str_digits n)"
  using str_digits_digits [of n] by (auto simp: list_all_iff dest: is_digit_not_dash)

lemma name_port_unique:
  assumes eq: "t1 @ ''-'' @ py_str_int p1 = t2 @ ''-'' @ py_str_int p2"
    and t1: "t1 \<noteq> []" "last t1 \<noteq> CHR ''-''"
    and t2: "t2 \<noteq> []" "last t2 \<noteq> CHR ''-''"
  shows "t1 = t2 \<and> p1 = p2"
proof -
  define a1 where "a1 = (if p1 < 0 then t1 @ ''-'' else t1)"
  define a2 where "a2 = (if p2 < 0 then t2 @ ''-'' else t2)"
  define n1 where "n1 = \<bar>p1\<bar>"
  define n2 where "n2 = \<bar>p2\<bar>"
  have nn: "0 \<le> n1" "0 \<le> n2" by (simp_all add: n1_def n2_def)
  have s1: "t1 @ ''-'' @ py_str_int p1 = a1 @ CHR ''-'' # str_digits n1"
    by (simp add: a1_def n1_def py_str_int_def)
  have s2: "t2 @ ''-'' @ py_str_int p2 = a2 @ CHR ''-'' # str_digits n2"
    by (simp add: a2_def n2_def py_str_int_def)
  from eq s1 s2 have "a1 @ CHR ''-'' # str_digits n1 = a2 @ CHR ''-'' # str_digits n2"
    by simp
  then have a: "a1 = a2" and d: "str_digits n1 = str_digits n2"
    using split_last_dash [of a1 "str_digits n1" a2 "str_digits n2"] nn str_digits_no_dash
    by auto
  from nn d have n: "n1 = n2" by (rule str_digits_inj)
  have sign: "(p1 < 0) = (p2 < 0)"
  proof (rule ccontr)
    assume "(p1 < 0) \<noteq> (p2 < 0)"
    then consider "p1 < 0" "\<not> p2 < 0" | "\<not> p1 < 0" "p2 < 0" by blast
    then show False
    proof cases
      case 1
      with a have "t2 = t1 @ ''-''" by (simp add: a1_def a2_def)
      with t2 show False by simp
    next
      case 2
      with a have "t1 = t2 @ ''-''" by (simp add: a1_def a2_def)
      with t1 show False by simp
    qed
  qed
  with a have "t1 = t2" by (simp add: a1_def a2_def split: if_splits)
  moreover from n sign have "p1 = p2" unfolding n1_def n2_def by arith
  ultimately show ?thesis by simp
qed

lemma set_collapse_dashes: "set (collapse_dashes m) \<subseteq> set m"
  by (induction m rule: collapse_dashes.induct) (auto simp: is_dash_def dest: set_dropWhileD)

lemma strip_where_all: "list_all P s \<Longrightarrow> strip_where P s = []"
  by (auto simp: strip_where_def list_all_iff dest: set_dropWhileD)

lemma lower_changes_alnum: "py_lower_char c \<noteq> c \<Longrightarrow> py_isalnum c"
  by (simp add: py_isalnum_def py_lower_char_def Let_def split: if_splits) arith

lemma lower_not_alnum: "\<not> py_isalnum c \<Longrightarrow> py_lower_char c = c"
  using lower_changes_alnum by blast

lemma sanitize_fallback:
  assumes "list_all (\<lambda>c. \<not> py_isalnum c \<and> c \<noteq> CHR ''_'') x"
  shows "sanitize_unit_part (Some x) = ''tunnel''"
proof -
  define m where "m = map (\<lambda>c. if allowed_char c then c else CHR ''-'') (py_lower (py_strip x))"
  have step: "(if allowed_char (py_lower_char c) then py_lower_char c else CHR ''-'') = CHR ''-''"
    if "\<not> py_isalnum c" "c \<noteq> CHR ''_''" for c
    using that by (simp add: lower_not_alnum allowed_char_def lower_dash)
  have "set (py_strip x) \<subseteq> set x"
    by (simp add: py_strip_def strip_where_set)
  with assms have *: "\<And>c. c \<in> set (py_strip x) \<Longrightarrow> \<not> py_isalnum c \<and> c \<noteq> CHR ''_''"
    by (auto simp: list_all_iff)
  have "m = map (\<lambda>c. CHR ''-'') (py_strip x)"
    unfolding m_def py_lower_def map_map comp_def
    by (rule map_cong [OF refl]) (simp add: step *)
  then have "\<forall>c\<in>set m. is_dash c"
    by (simp add: is_dash_def)
  with set_collapse_dashes [of m] have "list_all is_dash (collapse_dashes m)"
    unfolding list_all_iff by blast
  then have "strip_where is_dash (collapse_dashes m) = []"
    by (rule strip_where_all)
  then show ?thesis
    by (simp add: sanitize_unit_part_def m_def)
qed

text \<open>
  C1, as the code has it: the canonical unit name is a function of the tunnel name and
  the port, it is never empty, a name without any alphanumeric character or underscore
  falls back to \<open>tunnel\<close>, and two unit names are equal exactly when the
  sanitized names and the ports are equal. The dash that joins name and port does occur
  inside sanitized names; the name and the port can still be read back because the
  decimal port has no dash other than a leading minus sign and a sanitized name never
  ends with a dash.
\<close>

theorem get_service_name_collision_free:
  "sanitize_unit_part n \<noteq> []
   \<and> (list_all (\<lambda>c. \<not> py_isalnum c \<and> c \<noteq> CHR ''_'') x
        \<longrightarrow> sanitize_unit_part (Some x) = ''tunnel'')
   \<and> get_service_name c1 p1 \<noteq> []
   \<and> ((get_service_name c1 p1 = get_service_name c2 p2)
        = (sanitize_unit_part (getattr (name c1) (Some ''tunnel''))
             = sanitize_unit_part (getattr (name c2) (Some ''tunnel'')) \<and> p1 = p2))"
proof (intro conjI impI)
  show "sanitize_unit_part n \<noteq> []"
    by (rule sanitize_nonempty)
  show "sanitize_unit_part (Some x) = ''tunnel''"
    if "list_all (\<lambda>c. \<not> py_isalnum c \<and> c \<noteq> CHR ''_'') x"
    using that by (rule sanitize_fallback)
  show "get_service_name c1 p1 \<noteq> []"
    by (simp add: get_service_name_def)
  let ?t1 = "sanitize_unit_part (getattr (name c1) (Some ''tunnel''))"
  let ?t2 = "sanitize_unit_part (getattr (name c2) (Some ''tunnel''))"
  show "(get_service_name c1 p1 = get_service_name c2 p2) = (?t1 = ?t2 \<and> p1 = p2)"
  proof
    assume "get_service_name c1 p1 = get_service_name c2 p2"
    then have "?t1 @ ''-'' @ py_str_int p1 = ?t2 @ ''-'' @ py_str_int p2"
      by (simp add: get_service_name_def)
    then show "?t1 = ?t2 \<and> p1 = p2"
      by (rule name_port_unique) (rule sanitize_nonempty sanitize_last)+
  next
    assume "?t1 = ?t2 \<and> p1 = p2"
    then show "get_service_name c1 p1 = get_service_name c2 p2"
      by (simp add: get_service_name_def)
  qed
qed

theorem get_service_name_collision_free_witness:
  "list_all (\<lambda>c. \<not> py_isalnum c \<and> c \<noteq> CHR ''_'') ''!! ??''
   \<and> sanitize_unit_part (Some ''!! ??'') = ''tunnel''
   \<and> get_service_name cfg_office 8080 = ''vortexl2-fwd-office-vpn-8080.service''
   \<and> get_service_name (cfg_office\<lparr>name := Present (Some ''office'')\<rparr>) 8080
       \<noteq> get_service_name cfg_office 8080"
proof -
  have h: "list_all (\<lambda>c. \<not> py_isalnum c \<and> c \<noteq> CHR ''_'') ''!! ??''"
    by code_simp
  have n: "sanitize_unit_part (Some ''office'') \<noteq> sanitize_unit_part (Some ''Office VPN'')"
    by code_simp
  have v: "get_service_name cfg_office 8080 = ''vortexl2-fwd-office-vpn-8080.service''"
    by code_simp
  have g: "getattr (name (cfg_office\<lparr>name := Present (Some ''office'')\<rparr>)) (Some ''tunnel'')
             = Some ''office''"
    "getattr (name cfg_office) (Some ''tunnel'') = Some ''Office VPN''"
    by (simp_all add: cfg_office_def getattr_def)
  from h n v show ?thesis
    using get_service_name_collision_free
      [of None "''!! ??''" "cfg_office\<lparr>name := Present (Some ''office'')\<rparr>" 8080 cfg_office 8080]
    by (simp only: g) simp
qed

text \<open>
  The joining dash belongs to the sanitized alphabet: it survives sanitization inside a
  name.
\<close>

theorem delimiter_in_sanitized_name:
  "CHR ''-'' \<in> set (sanitize_unit_part (Some ''a-b''))"
  by code_simp

subsection \<open>What the primitives do to the state\<close>

lemma run_command_state:
  "config (snd (run_command e cmd st)) = config st"
  "trace (snd (run_command e cmd st)) = trace st @ [Run cmd]"
  by (simp_all add: run_command_def Let_def split: prod.splits proc_result.splits)

lemma unlink_state:
  "config (snd (unlink e path st)) = config st"
  "trace (snd (unlink e path st)) = trace st @ [Unlink path]"
  by (simp_all add: unlink_def split: prod.splits)

lemma write_file_state:
  "config (snd (write_file e path content st)) = config st"
  "trace (snd (write_file e path content st)) = trace st @ [WriteFile path content]"
  by (simp_all add: write_file_def split: prod.splits)

subsection \<open>Stopping all forwards\<close>

text \<open>
  C3 at a declared port whose canonical unit cannot be stopped: \<open>stop_all_forwards\<close>
  appends a line only for a successful stop, so the transcript stays empty and the
  result is the message meant for an empty port list, although port 8080 is declared
  and both stop commands were issued.
\<close>

theorem stop_all_forwards_silent_on_failure:
  "forwarded_ports (config st_legacy) = Present [8080]
   \<and> fst (stop_all_forwards env_failing st_legacy) = (True, ''No port forwards configured'')
   \<and> trace (snd (stop_all_forwards env_failing st_legacy))
       = [Run ''systemctl stop vortexl2-fwd-office-vpn-8080.service'',
          Run ''systemctl stop vortexl2-fwd-8080.service'']"
  by code_simp

subsection \<open>Listing\<close>

lemma run_command_result_config:
  "run_command e cmd st = (r, st') \<Longrightarrow> config st' = config st"
  using run_command_state(1) [of e cmd st] by simp

lemma list_forwards_step_spec:
  "list_forwards_step e port (forwards, st)
     = (forwards @ [fst (spec_record e port st)], snd (spec_record e port st))"
proof -
  obtain a_ok a_out st1 where a:
    "run_command e (''systemctl is-active '' @ get_service_name (config st) port) st
       = ((a_ok, a_out), st1)"
    by (metis prod.exhaust)
  obtain l_ok l_out st2 where l:
    "run_command e (''systemctl is-active '' @ legacy_service_name port) st1
       = ((l_ok, l_out), st2)"
    by (metis prod.exhaust)
  have c1: "config st1 = config st"
    using run_command_state(1) [of e "''systemctl is-active '' @ get_service_name (config st) port" st] a
    by simp
  have c2: "config st2 = config st"
    using run_command_state(1) [of e "''systemctl is-active '' @ legacy_service_name port" st1] l c1
    by simp
  show ?thesis
  proof (cases a_ok)
    case True
    with a c1 show ?thesis
      by (auto simp: list_forwards_step_def spec_record_def spec_status_def Let_def
          split: prod.splits dest: run_command_result_config)
  next
    case False
    with a l c1 c2 show ?thesis
      by (auto simp: list_forwards_step_def spec_record_def spec_status_def Let_def
          split: prod.splits dest: run_command_result_config)
  qed
qed

lemma list_forwards_loop_spec:
  "list_forwards_loop e ports (forwards, st)
     = (forwards @ fst (spec_list e ports st), snd (spec_list e ports st))"
  by (induction ports arbitrary: forwards st) (simp_all add: list_forwards_step_spec Let_def)

lemma spec_record_fields:
  "map fst (fst (spec_record e port st)) = [''port'', ''status'', ''enabled'', ''remote'']"
  "map_of (fst (spec_record e port st)) ''port'' = Some (IntV port)"
  "map_of (fst (spec_record e port st)) ''remote''
     = Some (StrV (py_str (getattr (remote_forward_ip (config st)) (Some ''-''))
                   @ '':'' @ py_str_int port))"
  by (simp_all add: spec_record_def Let_def)

lemma spec_record_config: "config (snd (spec_record e port st)) = config st"
  by (simp add: spec_record_def spec_status_def Let_def run_command_state)

lemma spec_list_shape:
  "length (fst (spec_list e ports st)) = length ports
   \<and> map (\<lambda>d. map_of d ''port'') (fst (spec_list e ports st)) = map (\<lambda>p. Some (IntV p)) ports
   \<and> list_all (\<lambda>d. map fst d = [''port'', ''status'', ''enabled'', ''remote''])
        (fst (spec_list e ports st))"
  by (induction ports arbitrary: st) (simp_all add: Let_def spec_record_fields)

text \<open>
  C7: \<open>list_forwards\<close> computes what the specification words: one record per
  declared port, in order, each with exactly the keys port, status, enabled and remote;
  the status is the canonical \<open>is-active\<close> answer when that query succeeds,
  otherwise the legacy answer when that succeeds, otherwise \<open>inactive\<close>; and
  \<open>is-enabled\<close> is asked of the unit that produced the status (the canonical one
  when neither did), with \<open>disabled\<close> when that query fails.
\<close>

theorem list_forwards_follows_spec:
  "list_forwards e st = spec_list e (getattr (forwarded_ports (config st)) []) st
   \<and> length (fst (list_forwards e st)) = length (getattr (forwarded_ports (config st)) [])
   \<and> map (\<lambda>d. map_of d ''port'') (fst (list_forwards e st))
       = map (\<lambda>p. Some (IntV p)) (getattr (forwarded_ports (config st)) [])
   \<and> list_all (\<lambda>d. map fst d = [''port'', ''status'', ''enabled'', ''remote''])
        (fst (list_forwards e st))"
proof -
  have "list_forwards e st = spec_list e (getattr (forwarded_ports (config st)) []) st"
    by (simp add: list_forwards_def list_forwards_loop_spec)
  then show ?thesis
    using spec_list_shape [of e "getattr (forwarded_ports (config st)) []" st] by simp
qed

theorem list_forwards_follows_spec_witness:
  "list_forwards env_legacy_active st_legacy
     = ([[(''port'', IntV 8080), (''status'', StrV ''active''), (''enabled'', StrV ''enabled''),
          (''remote'', StrV ''10.30.30.2:8080'')]],
        st_legacy\<lparr>trace :=
          [Run ''systemctl is-active vortexl2-fwd-office-vpn-8080.service'',
           Run ''systemctl is-active vortexl2-fwd-8080.service'',
           Run ''systemctl is-enabled vortexl2-fwd-8080.service'']\<rparr>)"
proof -
  have "spec_list env_legacy_active (getattr (forwarded_ports (config st_legacy)) []) st_legacy
     = ([[(''port'', IntV 8080), (''status'', StrV ''active''), (''enabled'', StrV ''enabled''),
          (''remote'', StrV ''10.30.30.2:8080'')]],
        st_legacy\<lparr>trace :=
          [Run ''systemctl is-active vortexl2-fwd-office-vpn-8080.service'',
           Run ''systemctl is-active vortexl2-fwd-8080.service'',
           Run ''systemctl is-enabled vortexl2-fwd-8080.service'']\<rparr>)"
    by code_simp
  with list_forwards_follows_spec [of env_legacy_active st_legacy] show ?thesis
    by simp
qed

end
